theory Spec2Isabelle
  imports Complex_Main
begin

section \<open>JavaScript values\<close>

text \<open>
  The dashboard (\<^verbatim>\<open>pages/index.js\<close>) is one React component, \<^verbatim>\<open>Home\<close>. Its data are
  what \<^verbatim>\<open>res.json()\<close> and the Supabase client hand it: JSON values. A JSON number
  is modelled by the exact rational value of the double that \<^verbatim>\<open>JSON.parse\<close> produces
  (so \<open>-0\<close> is \<open>0\<close>, and numerals beyond the range of a double are outside the model).
  An object is the list of its members in the order of the text; a later member
  with the same key replaces an earlier one, as \<^verbatim>\<open>JSON.parse\<close> does.
\<close>

datatype json =
    JNull
  | JBool bool
  | JNum rat
  | JStr string
  | JArr "json list"
  | JObj "(string \<times> json) list"

text \<open>A JavaScript value that came from JSON data: \<open>None\<close> is \<^verbatim>\<open>undefined\<close>.\<close>

type_synonym js = "json option"

text \<open>\<^verbatim>\<open>ToBoolean\<close>: what \<^verbatim>\<open>if (v)\<close>, \<^verbatim>\<open>!v\<close>, \<^verbatim>\<open>a || b\<close> and \<^verbatim>\<open>a && b\<close> test.\<close>

fun truthy :: "json \<Rightarrow> bool" where
  "truthy JNull = False"
| "truthy (JBool b) = b"
| "truthy (JNum r) = (r \<noteq> 0)"
| "truthy (JStr s) = (s \<noteq> [])"
| "truthy (JArr xs) = True"
| "truthy (JObj kvs) = True"

definition truthy_js :: "js \<Rightarrow> bool" where
  "truthy_js v = (case v of None \<Rightarrow> False | Some j \<Rightarrow> truthy j)"

text \<open>\<^verbatim>\<open>a || b\<close>: the left operand when it is truthy, the right one otherwise.\<close>

definition or_else :: "js \<Rightarrow> js \<Rightarrow> js" where
  "or_else a b = (if truthy_js a then a else b)"

text \<open>
  \<^verbatim>\<open>o.k\<close> for a value \<open>o\<close> other than \<^verbatim>\<open>null\<close> and a key \<open>k\<close> that is a data member
  (\<^verbatim>\<open>message\<close> among them) or \<^verbatim>\<open>length\<close>, the only keys the program reads. On \<^verbatim>\<open>null\<close>
  the read raises a TypeError, which is \<open>get_prop\<close>; the other callers test for
  \<open>JNull\<close> before they use \<open>field\<close>. Only whether a string's length is zero
  matters to the program.
\<close>

fun field :: "json \<Rightarrow> string \<Rightarrow> js" where
  "field (JObj kvs) k = map_of (rev kvs) k"
| "field (JArr xs) k = (if k = ''length'' then Some (JNum (of_nat (length xs))) else None)"
| "field (JStr s) k = (if k = ''length'' then Some (JNum (of_nat (length s))) else None)"
| "field v k = None"

datatype js_error = TypeError

definition get_prop :: "json \<Rightarrow> string \<Rightarrow> js_error + js" where
  "get_prop v k = (if v = JNull then Inl TypeError else Inr (field v k))"

text \<open>
  The built-in conversions the program calls that depend on more than the JSON
  value's rational number are parameters: \<^verbatim>\<open>ToNumber\<close> of a string, an array or an
  object (\<open>None\<close> is NaN), and \<^verbatim>\<open>Number::toString\<close>, which \<^verbatim>\<open>toFixed\<close> falls back to
  from \<open>10^21\<close> on.
\<close>

record ecma =
  ToNumber_other :: "json \<Rightarrow> rat option"
  Number_toString :: "rat \<Rightarrow> string"

definition to_number :: "ecma \<Rightarrow> js \<Rightarrow> rat option" where
  "to_number rt v =
     (case v of
        None \<Rightarrow> None
      | Some JNull \<Rightarrow> Some 0
      | Some (JBool b) \<Rightarrow> Some (if b then 1 else 0)
      | Some (JNum r) \<Rightarrow> Some r
      | Some j \<Rightarrow> ToNumber_other rt j)"

subsection \<open>\<^verbatim>\<open>Number.prototype.toFixed\<close>\<close>

definition digit_char :: "nat \<Rightarrow> char" where
  "digit_char d = ''0123456789'' ! d"

fun digits :: "nat \<Rightarrow> string" where
  "digits n = (if n < 10 then [digit_char n] else digits (n div 10) @ [digit_char (n mod 10)])"

declare digits.simps [simp del]

text \<open>
  \<^verbatim>\<open>x.toFixed(f)\<close> for a finite \<open>x\<close>, after the ECMAScript algorithm: the sign, then
  below \<open>10^21\<close> the integer \<open>n\<close> nearest to \<open>x * 10^f\<close> (the larger one on a tie)
  written in decimal, padded with zeros to \<open>f + 1\<close> digits, with a point before
  the last \<open>f\<close> digits.
\<close>

definition fixed_digits :: "nat \<Rightarrow> nat \<Rightarrow> string" where
  "fixed_digits f n =
     (let m0 = (if n = 0 then ''0'' else digits n);
          m1 = (if length m0 \<le> f then replicate (f + 1 - length m0) (CHR ''0'') @ m0 else m0);
          k = length m1
      in if f \<noteq> 0 then take (k - f) m1 @ ''.'' @ drop (k - f) m1 else m0)"

definition toFixed :: "ecma \<Rightarrow> nat \<Rightarrow> rat \<Rightarrow> string" where
  "toFixed rt f x =
     (let s = (if x < 0 then ''-'' else []);
          a = \<bar>x\<bar>;
          m = (if 10 ^ 21 \<le> a then Number_toString rt a
               else fixed_digits f (nat \<lfloor>a * 10 ^ f + 1 / 2\<rfloor>))
      in s @ m)"

section \<open>The table service\<close>

text \<open>
  The query \<^verbatim>\<open>fetchCryptos\<close> issues:
  \<^verbatim>\<open>supabase.from('crypto_prices').select('*').order('market_cap', { ascending: false }).limit(20)\<close>.
\<close>

record query =
  from_table :: string
  select_columns :: string
  order_column :: string
  ascending :: bool
  limit_rows :: nat

definition crypto_query :: query where
  "crypto_query =
     \<lparr>from_table = ''crypto_prices'', select_columns = ''*'',
      order_column = ''market_cap'', ascending = False, limit_rows = 20\<rparr>"

text \<open>
  What the awaited query gives back. The client resolves to \<^verbatim>\<open>{ data, error }\<close>, where
  \<open>data\<close> is the array of rows or \<^verbatim>\<open>null\<close> and \<open>error\<close> is \<^verbatim>\<open>null\<close> or what the client made
  of the failed response (as a rule an object with a \<^verbatim>\<open>message\<close>, but any value that
  the body of the response parses to); or the awaited promise rejects, with any
  value. An exception object is modelled by the JSON object of its data
  properties.
\<close>

datatype outcome =
    Resolved "json list option" js
  | Rejected js

section \<open>The component's state\<close>

text \<open>
  \<open>cryptos\<close>, \<open>loading\<close> and \<open>error\<close> are the three \<^verbatim>\<open>useState\<close> cells, each holding the
  value last passed to its setter; \<open>liveData\<close> is the \<open>data\<close> of the \<^verbatim>\<open>useSWR\<close> hook.
  \<open>error\<close> starts as \<^verbatim>\<open>null\<close> and then holds whatever \<^verbatim>\<open>error.message\<close> was.
  Two more fields record what the component has asked of the table service:
  \<open>pending\<close>, the queries issued and not yet answered, and \<open>subscribed\<close>, whether
  the \<^verbatim>\<open>crypto_changes\<close> channel is open. The \<^verbatim>\<open>console.log\<close> and \<^verbatim>\<open>console.error\<close>
  calls write to the developer console only and are left out.
\<close>

record home_state =
  cryptos :: "json list"
  loading :: bool
  error :: js
  liveData :: js
  pending :: "query list"
  subscribed :: bool

definition initial :: home_state where
  "initial =
     \<lparr>cryptos = [], loading = True, error = Some JNull, liveData = None,
      pending = [], subscribed = False\<rparr>"

subsection \<open>\<^verbatim>\<open>fetchCryptos\<close>\<close>

text \<open>
  The function suspends once, at \<^verbatim>\<open>await\<close>. \<open>fetchCryptos\<close> is the part before it:
  \<^verbatim>\<open>setLoading(true)\<close> and the query sent. The part after it runs on whatever state
  the component has when the answer arrives.
\<close>

definition fetchCryptos :: "home_state \<Rightarrow> home_state" where
  "fetchCryptos s = s\<lparr>loading := True, pending := pending s @ [crypto_query]\<rparr>"

text \<open>
  The \<^verbatim>\<open>try\<close> block after the \<^verbatim>\<open>await\<close>: the rejection is thrown, or
  \<^verbatim>\<open>if (error) throw error\<close> throws a truthy \<open>error\<close> (\<open>Inl\<close>, before any setter is
  called), or \<^verbatim>\<open>setCryptos(data || [])\<close> runs.
\<close>

definition try_block :: "outcome \<Rightarrow> home_state \<Rightarrow> js + home_state" where
  "try_block oc s =
     (case oc of
        Rejected e \<Rightarrow> Inl e
      | Resolved data err \<Rightarrow>
          if truthy_js err then Inl err
          else Inr (s\<lparr>cryptos := (case data of Some rows \<Rightarrow> rows | None \<Rightarrow> [])\<rparr>))"

text \<open>
  The \<^verbatim>\<open>catch\<close> block, \<^verbatim>\<open>setError(error.message)\<close>, on the value caught. Reading
  \<^verbatim>\<open>.message\<close> of \<^verbatim>\<open>undefined\<close> or \<^verbatim>\<open>null\<close> raises a TypeError, and the setter is not
  called; a value without that member gives \<^verbatim>\<open>undefined\<close>, which is then stored.
\<close>

definition catch_block :: "js \<Rightarrow> home_state \<Rightarrow> js_error + home_state" where
  "catch_block e s =
     (case e of
        None \<Rightarrow> Inl TypeError
      | Some v \<Rightarrow>
          (case get_prop v ''message'' of Inl t \<Rightarrow> Inl t | Inr m \<Rightarrow> Inr (s\<lparr>error := m\<rparr>)))"

definition finally_block :: "home_state \<Rightarrow> home_state" where
  "finally_block s = s\<lparr>loading := False\<rparr>"

text \<open>
  What becomes of the promise that \<^verbatim>\<open>fetchCryptos()\<close> returned: it is fulfilled, or
  it is rejected with the error that left the \<^verbatim>\<open>catch\<close> block. The \<^verbatim>\<open>finally\<close> block
  runs either way. No caller awaits the promise, so only the state goes on.
\<close>

datatype settled = Fulfilled | Threw js_error

definition fetchCryptos_settle :: "outcome \<Rightarrow> home_state \<Rightarrow> home_state \<times> settled" where
  "fetchCryptos_settle oc s =
     (case try_block oc s of
        Inr s' \<Rightarrow> (finally_block s', Fulfilled)
      | Inl e \<Rightarrow>
          (case catch_block e s of
             Inr s' \<Rightarrow> (finally_block s', Fulfilled)
           | Inl t \<Rightarrow> (finally_block s, Threw t)))"

definition fetchCryptos_resume :: "outcome \<Rightarrow> home_state \<Rightarrow> home_state" where
  "fetchCryptos_resume oc s = fst (fetchCryptos_settle oc s)"

subsection \<open>The polled feed\<close>

text \<open>
  \<^verbatim>\<open>fetcher\<close> awaits \<^verbatim>\<open>fetch(url)\<close> and returns \<^verbatim>\<open>res.json()\<close>. The request either fails
  (the promise rejects) or gives a response with a status and a body; \<open>parsed\<close> is
  the JSON value of the body, \<open>None\<close> when the body is not JSON and \<^verbatim>\<open>res.json()\<close>
  rejects. The status is carried by the response and never read.
\<close>

record http_response =
  status :: nat
  parsed :: "json option"

datatype fetch_result = NetworkFailure | Response http_response

datatype fetch_error = FetchRejected | JsonSyntaxError

definition fetcher :: "fetch_result \<Rightarrow> fetch_error + json" where
  "fetcher r =
     (case r of
        NetworkFailure \<Rightarrow> Inl FetchRejected
      | Response res \<Rightarrow> (case parsed res of None \<Rightarrow> Inl JsonSyntaxError | Some v \<Rightarrow> Inr v))"

text \<open>
  Modelled from the spec: the \<^verbatim>\<open>useSWR\<close> hook is the \<^verbatim>\<open>swr\<close> library's. By the spec's
  pollLiveFeed, a poll whose fetcher succeeds replaces \<open>liveData\<close> with the value
  returned, and a poll whose fetcher fails leaves \<open>liveData\<close> as it was.
\<close>

definition useSWR_settle :: "fetch_error + json \<Rightarrow> js \<Rightarrow> js" where
  "useSWR_settle r old = (case r of Inl e \<Rightarrow> old | Inr v \<Rightarrow> Some v)"

definition poll_settle :: "fetch_result \<Rightarrow> home_state \<Rightarrow> home_state" where
  "poll_settle r s = s\<lparr>liveData := useSWR_settle (fetcher r) (liveData s)\<rparr>"

subsection \<open>The effect: mount, change notifications, unmount\<close>

text \<open>
  The effect runs once on mount: it calls \<^verbatim>\<open>fetchCryptos()\<close> and subscribes to every
  event (\<^verbatim>\<open>event: '*'\<close>) on \<^verbatim>\<open>crypto_prices\<close>. The callback receives the payload, logs
  it and calls \<^verbatim>\<open>fetchCryptos()\<close>. The cleanup calls \<^verbatim>\<open>subscription.unsubscribe()\<close>.
\<close>

datatype change_kind = INSERT | UPDATE | DELETE

record payload =
  eventType :: change_kind
  new_row :: json
  old_row :: json

definition on_mount :: "home_state \<Rightarrow> home_state" where
  "on_mount s = (fetchCryptos s)\<lparr>subscribed := True\<rparr>"

definition on_change :: "payload \<Rightarrow> home_state \<Rightarrow> home_state" where
  "on_change p s = fetchCryptos s"

definition cleanup :: "home_state \<Rightarrow> home_state" where
  "cleanup s = s\<lparr>subscribed := False\<rparr>"

text \<open>
  The events of a component instance. A closed channel delivers no notification,
  and an answer needs a query that is waiting for one; each answer takes the oldest
  waiting query. Requests in flight are not cancelled by the cleanup, so an answer
  may come after \<open>Unmount\<close>; the cells are then no longer the state of a mounted
  component, and what \<open>step\<close> records is what the continuation passes to the
  setters, not what the React runtime makes of it.
\<close>

datatype event =
    Mount
  | Notification payload
  | TableAnswer outcome
  | FeedAnswer fetch_result
  | Unmount

fun step :: "event \<Rightarrow> home_state \<Rightarrow> home_state" where
  "step Mount s = on_mount s"
| "step (Notification p) s = (if subscribed s then on_change p s else s)"
| "step (TableAnswer oc) s =
     (if pending s = [] then s else fetchCryptos_resume oc (s\<lparr>pending := tl (pending s)\<rparr>))"
| "step (FeedAnswer r) s = poll_settle r s"
| "step Unmount s = cleanup s"

definition run :: "event list \<Rightarrow> home_state \<Rightarrow> home_state" where
  "run evs s = foldl (\<lambda>t e. step e t) s evs"

section \<open>Rendering\<close>

text \<open>\<^verbatim>\<open>const displayData = liveData || cryptos\<close>\<close>

definition displayData :: "home_state \<Rightarrow> json" where
  "displayData s =
     (case liveData s of
        None \<Rightarrow> JArr (cryptos s)
      | Some v \<Rightarrow> if truthy v then v else JArr (cryptos s))"

subsection \<open>One row of the table\<close>

text \<open>
  The callback of \<^verbatim>\<open>displayData.map((crypto, index) => ...)\<close> first resolves three values:
  \<^verbatim>\<open>crypto.current_price || crypto.price || 0\<close>,
  \<^verbatim>\<open>crypto.price_change_percentage_24h || crypto.change_24h || 0\<close> and
  \<^verbatim>\<open>crypto.market_cap || 0\<close>.
\<close>

definition price_of :: "json \<Rightarrow> js" where
  "price_of crypto =
     or_else (or_else (field crypto ''current_price'') (field crypto ''price'')) (Some (JNum 0))"

definition change_of :: "json \<Rightarrow> js" where
  "change_of crypto =
     or_else (or_else (field crypto ''price_change_percentage_24h'') (field crypto ''change_24h''))
       (Some (JNum 0))"

definition marketCap_of :: "json \<Rightarrow> js" where
  "marketCap_of crypto = or_else (field crypto ''market_cap'') (Some (JNum 0))"

text \<open>\<^verbatim>\<open>const isPositive = change >= 0\<close>: a comparison with NaN is false.\<close>

definition isPositive :: "ecma \<Rightarrow> js \<Rightarrow> bool" where
  "isPositive rt change = (case to_number rt change of None \<Rightarrow> False | Some c \<Rightarrow> 0 \<le> c)"

text \<open>
  The badge: the \<^verbatim>\<open>className\<close> template and the text
  \<^verbatim>\<open>{isPositive ? up : down} {Math.abs(change).toFixed(2)}%\<close>. The two arrows are
  U+2191 and U+2193, written here as their UTF-8 bytes.
\<close>

definition up_arrow :: string where
  "up_arrow = [CHR 0xE2, CHR 0x86, CHR 0x91]"

definition down_arrow :: string where
  "down_arrow = [CHR 0xE2, CHR 0x86, CHR 0x93]"

definition abs_toFixed2 :: "ecma \<Rightarrow> js \<Rightarrow> string" where
  "abs_toFixed2 rt change =
     (case to_number rt change of None \<Rightarrow> ''NaN'' | Some c \<Rightarrow> toFixed rt 2 \<bar>c\<bar>)"

definition badge_class :: "bool \<Rightarrow> string" where
  "badge_class positive =
     ''inline-flex items-center px-2.5 py-0.5 rounded-full text-xs font-medium '' @
     (if positive then ''bg-green-500/20 text-green-400'' else ''bg-red-500/20 text-red-400'')"

definition badge_text :: "ecma \<Rightarrow> js \<Rightarrow> string" where
  "badge_text rt change =
     (if isPositive rt change then up_arrow else down_arrow) @ '' '' @ abs_toFixed2 rt change @ ''%''"

text \<open>
  A rendered row. The price and the market cap are kept as the values passed to
  \<^verbatim>\<open>formatPrice\<close> and \<^verbatim>\<open>formatNumber\<close>: the \<^verbatim>\<open>Intl.NumberFormat\<close> text is not modelled,
  nor are the row key and the image.
\<close>

record row_view =
  rank :: nat
  coin_name :: js
  coin_symbol :: js
  price_cell :: js
  change_class :: string
  change_text :: string
  marketCap_cell :: js

definition render_row :: "ecma \<Rightarrow> nat \<Rightarrow> json \<Rightarrow> js_error + row_view" where
  "render_row rt index crypto =
     (if crypto = JNull then Inl TypeError
      else
        let change = change_of crypto in
        Inr \<lparr>rank = index + 1,
             coin_name = or_else (field crypto ''name'') (Some (JStr ''Unknown'')),
             coin_symbol = or_else (field crypto ''symbol'') (Some (JStr ''-'')),
             price_cell = price_of crypto,
             change_class = badge_class (isPositive rt change),
             change_text = badge_text rt change,
             marketCap_cell = marketCap_of crypto\<rparr>)"

fun render_rows :: "ecma \<Rightarrow> nat \<Rightarrow> json list \<Rightarrow> js_error + row_view list" where
  "render_rows rt index [] = Inr []"
| "render_rows rt index (crypto # rest) =
     (case render_row rt index crypto of
        Inl e \<Rightarrow> Inl e
      | Inr v \<Rightarrow> (case render_rows rt (index + 1) rest of Inl e \<Rightarrow> Inl e | Inr vs \<Rightarrow> Inr (v # vs)))"

subsection \<open>The component's output\<close>

text \<open>
  \<^verbatim>\<open>Home\<close> returns the error panel when \<^verbatim>\<open>if (error)\<close> holds, that is when the cell is
  truthy; the panel shows the cell's value. Otherwise it returns the dashboard:
  header, footer, and between them the spinner when
  \<^verbatim>\<open>loading && !displayData.length\<close>, the table otherwise. \<^verbatim>\<open>displayData.map\<close> is a
  function on an array only; calling it on anything else raises a TypeError.
\<close>

datatype body = Spinner | Table "row_view list"

datatype view = ErrorPanel json | Dashboard body

definition data_table :: "ecma \<Rightarrow> json \<Rightarrow> js_error + view" where
  "data_table rt d =
     (case d of
        JArr rows \<Rightarrow>
          (case render_rows rt 0 rows of Inl e \<Rightarrow> Inl e | Inr vs \<Rightarrow> Inr (Dashboard (Table vs)))
      | _ \<Rightarrow> Inl TypeError)"

definition dashboard :: "ecma \<Rightarrow> home_state \<Rightarrow> js_error + view" where
  "dashboard rt s =
     (let d = displayData s in
      if loading s then
        (case get_prop d ''length'' of
           Inl e \<Rightarrow> Inl e
         | Inr len \<Rightarrow> if \<not> truthy_js len then Inr (Dashboard Spinner) else data_table rt d)
      else data_table rt d)"

definition Home :: "ecma \<Rightarrow> home_state \<Rightarrow> js_error + view" where
  "Home rt s =
     (case error s of
        None \<Rightarrow> dashboard rt s
      | Some m \<Rightarrow> if truthy m then Inr (ErrorPanel m) else dashboard rt s)"

section \<open>Notions the properties are stated with\<close>

subsection \<open>A snapshot that honours the query\<close>

text \<open>
  The table service is not part of the program. That its answer honours a query
  means: no more rows than the limit, in the order asked for. The order is that of
  the database behind the service for a numeric column: a row whose column is not
  a number counts as \<^verbatim>\<open>NULL\<close>, and \<^verbatim>\<open>NULL\<close> sorts as larger than every number (last
  when ascending, first when descending).
\<close>

definition column_key :: "string \<Rightarrow> json \<Rightarrow> rat option" where
  "column_key col row = (case field row col of Some (JNum r) \<Rightarrow> Some r | _ \<Rightarrow> None)"

definition null_largest_le :: "rat option \<Rightarrow> rat option \<Rightarrow> bool" where
  "null_largest_le x y =
     (case y of None \<Rightarrow> True | Some b \<Rightarrow> (case x of None \<Rightarrow> False | Some a \<Rightarrow> a \<le> b))"

definition in_query_order :: "query \<Rightarrow> json \<Rightarrow> json \<Rightarrow> bool" where
  "in_query_order q r1 r2 =
     (if ascending q
      then null_largest_le (column_key (order_column q) r1) (column_key (order_column q) r2)
      else null_largest_le (column_key (order_column q) r2) (column_key (order_column q) r1))"

definition honours :: "query \<Rightarrow> json list \<Rightarrow> bool" where
  "honours q rows = (length rows \<le> limit_rows q \<and> sorted_wrt (in_query_order q) rows)"

text \<open>
  The market cap a row displays, as a number: \<^verbatim>\<open>crypto.market_cap || 0\<close> when that is a
  number.
\<close>

definition displayed_marketCap :: "json \<Rightarrow> rat" where
  "displayed_marketCap row = (case marketCap_of row of Some (JNum x) \<Rightarrow> x | _ \<Rightarrow> 0)"

text \<open>
  An answer honours the query it answers. The answers of a run honour the queries
  the component issued when each answer to a table query honours the oldest query
  then waiting, which is the one \<open>step\<close> lets it answer.
\<close>

definition answer_honours :: "query \<Rightarrow> outcome \<Rightarrow> bool" where
  "answer_honours q oc = (case oc of Resolved (Some rows) err \<Rightarrow> honours q rows | _ \<Rightarrow> True)"

definition event_honours :: "event \<Rightarrow> home_state \<Rightarrow> bool" where
  "event_honours e s =
     (case e of
        TableAnswer oc \<Rightarrow> (case pending s of [] \<Rightarrow> True | q # qs \<Rightarrow> answer_honours q oc)
      | _ \<Rightarrow> True)"

fun service_honours :: "event list \<Rightarrow> home_state \<Rightarrow> bool" where
  "service_honours [] s = True"
| "service_honours (e # evs) s = (event_honours e s \<and> service_honours evs (step e s))"

text \<open>
  What holds of the table side of every state: the records are a snapshot for the
  query of \<open>fetchCryptos\<close>, and no other query is waiting.
\<close>

definition table_side_ok :: "home_state \<Rightarrow> bool" where
  "table_side_ok s = (honours crypto_query (cryptos s) \<and> set (pending s) \<subseteq> {crypto_query})"

subsection \<open>Absent fields, two decimals\<close>

text \<open>A field of a record is absent when the member is missing or \<^verbatim>\<open>null\<close>.\<close>

definition absent :: "js \<Rightarrow> bool" where
  "absent v = (v = None \<or> v = Some JNull)"

definition numeric :: "js \<Rightarrow> bool" where
  "numeric v = (case v of Some (JNum r) \<Rightarrow> True | _ \<Rightarrow> False)"

text \<open>
  A non-negative number rounded to two decimals, as the specification words it: the
  nearest hundredth \<open>n / 100\<close> (the upper one on a tie), written as the decimal
  digits of its whole part, a point, and its two decimals.
\<close>

definition nearest_hundredth :: "rat \<Rightarrow> nat" where
  "nearest_hundredth a = nat \<lfloor>a * 100 + 1 / 2\<rfloor>"

definition rounded_2_decimals :: "rat \<Rightarrow> string" where
  "rounded_2_decimals a =
     (let n = nearest_hundredth a
      in digits (n div 100) @ ''.'' @ [digit_char (n mod 100 div 10), digit_char (n mod 10)])"

text \<open>
  The number a string of decimal digits denotes, read from the characters' codes
  (\<open>48\<close> is the code of the digit zero).
\<close>

definition decimal_value :: "string \<Rightarrow> nat" where
  "decimal_value cs = foldl (\<lambda>a c. 10 * a + (of_char c - 48)) 0 cs"

subsection \<open>Sample data\<close>

text \<open>
  A runtime for the examples, none of which reaches a parametric conversion, and
  a record as the feed sends it and two rows as the table holds them.
\<close>

definition sample_ecma :: ecma where
  "sample_ecma = \<lparr>ToNumber_other = (\<lambda>j. None), Number_toString = (\<lambda>x. [])\<rparr>"

definition feed_record :: json where
  "feed_record =
     JObj [(''id'', JStr ''bitcoin''), (''symbol'', JStr ''btc''), (''name'', JStr ''Bitcoin''),
           (''current_price'', JNum 64000), (''market_cap'', JNum 1260000000000),
           (''price_change_percentage_24h'', JNum (- 3456 / 1000))]"

definition table_row :: json where
  "table_row =
     JObj [(''id'', JNum 1), (''name'', JStr ''Ethereum''), (''symbol'', JStr ''ETH''),
           (''price'', JNum 3100), (''market_cap'', JNum 372000000000),
           (''change_24h'', JNum (5 / 4)), (''image'', JNull)]"

definition table_row2 :: json where
  "table_row2 =
     JObj [(''id'', JNum 2), (''name'', JStr ''Bitcoin''), (''symbol'', JStr ''BTC''),
           (''price'', JNum 64000), (''market_cap'', JNum 1260000000000),
           (''change_24h'', JNum (- 3456 / 1000))]"

text \<open>The error object of a failed request, with its message.\<close>

definition error_object :: "string \<Rightarrow> json" where
  "error_object m = JObj [(''message'', JStr m), (''code'', JStr ''PGRST000'')]"

text \<open>The body of a rate-limited feed response: an object, not an array of records.\<close>

definition rate_limit_body :: json where
  "rate_limit_body =
     JObj [(''status'', JObj [(''error_code'', JNum 429), (''error_message'', JStr ''Throttled'')])]"

definition change_payload :: payload where
  "change_payload = \<lparr>eventType = UPDATE, new_row = table_row, old_row = table_row\<rparr>"

section \<open>Auxiliary facts\<close>

subsection \<open>Runs, snapshots, and the continuation of \<^verbatim>\<open>fetchCryptos\<close>\<close>

lemma run_snoc: "run (evs @ [e]) s = step e (run evs s)"
  by (simp add: run_def)

lemma run_Cons: "run (e # evs) s = run evs (step e s)"
  by (simp add: run_def)

lemma honours_Nil: "honours q []"
  by (simp add: honours_def)

lemma honours_crypto_query:
  "honours crypto_query rows =
     (length rows \<le> 20 \<and>
      sorted_wrt (\<lambda>r1 r2. null_largest_le (column_key ''market_cap'' r2) (column_key ''market_cap'' r1)) rows)"
proof -
  have "in_query_order crypto_query =
      (\<lambda>r1 r2. null_largest_le (column_key ''market_cap'' r2) (column_key ''market_cap'' r1))"
    by (intro ext) (simp add: in_query_order_def crypto_query_def)
  then show ?thesis by (simp add: honours_def crypto_query_def)
qed

lemma settle_success:
  assumes "\<not> truthy_js err"
  shows "fetchCryptos_settle (Resolved data err) s =
           (s\<lparr>cryptos := (case data of Some rows \<Rightarrow> rows | None \<Rightarrow> []), loading := False\<rparr>, Fulfilled)"
  using assms by (simp add: fetchCryptos_settle_def try_block_def finally_block_def)

lemma settle_thrown:
  assumes "try_block oc s = Inl e"
  shows "fetchCryptos_settle oc s =
           (case catch_block e s of
              Inr s' \<Rightarrow> (finally_block s', Fulfilled)
            | Inl t \<Rightarrow> (finally_block s, Threw t))"
  using assms by (simp add: fetchCryptos_settle_def)

lemma catch_block_value:
  "v \<noteq> JNull \<Longrightarrow> catch_block (Some v) s = Inr (s\<lparr>error := field v ''message''\<rparr>)"
  by (simp add: catch_block_def get_prop_def)

lemma catch_block_nullish:
  "catch_block None s = Inl TypeError" "catch_block (Some JNull) s = Inl TypeError"
  by (simp_all add: catch_block_def get_prop_def)

lemma resume_frame:
  "pending (fetchCryptos_resume oc s) = pending s"
  "subscribed (fetchCryptos_resume oc s) = subscribed s"
  "liveData (fetchCryptos_resume oc s) = liveData s"
  "loading (fetchCryptos_resume oc s) = False"
  by (auto simp: fetchCryptos_resume_def fetchCryptos_settle_def try_block_def catch_block_def
      get_prop_def finally_block_def split: outcome.splits option.splits sum.splits)

lemma resume_cryptos:
  "cryptos (fetchCryptos_resume oc s) =
     (case try_block oc s of Inl e \<Rightarrow> cryptos s | Inr s' \<Rightarrow> cryptos s')"
  by (auto simp: fetchCryptos_resume_def fetchCryptos_settle_def catch_block_def
      get_prop_def finally_block_def split: option.splits sum.splits)

lemma resume_honours:
  assumes "honours q (cryptos s)" and "answer_honours q oc"
  shows "honours q (cryptos (fetchCryptos_resume oc s))"
  using assms
  by (auto simp: resume_cryptos try_block_def answer_honours_def honours_Nil
      split: outcome.splits option.splits)

lemma table_side_initial: "table_side_ok initial"
  by (simp add: table_side_ok_def initial_def honours_Nil)

lemma table_side_fetchCryptos: "table_side_ok s \<Longrightarrow> table_side_ok (fetchCryptos s)"
  by (simp add: table_side_ok_def fetchCryptos_def)

lemma step_table_side:
  assumes "table_side_ok s" and "event_honours e s"
  shows "table_side_ok (step e s)"
proof (cases e)
  case Mount
  with assms(1) show ?thesis
    using table_side_fetchCryptos [of s] by (simp add: on_mount_def table_side_ok_def)
next
  case (Notification p)
  with assms(1) show ?thesis
    using table_side_fetchCryptos [of s] by (simp add: on_change_def)
next
  case (TableAnswer oc)
  show ?thesis
  proof (cases "pending s")
    case Nil
    with TableAnswer assms(1) show ?thesis by simp
  next
    case (Cons q qs)
    with assms(1) have q: "q = crypto_query" and qs: "set qs \<subseteq> {crypto_query}"
      by (auto simp: table_side_ok_def)
    from assms(2) TableAnswer Cons have "answer_honours q oc"
      by (simp add: event_honours_def)
    moreover from assms(1) have "honours crypto_query (cryptos (s\<lparr>pending := qs\<rparr>))"
      by (simp add: table_side_ok_def)
    ultimately have "honours crypto_query (cryptos (fetchCryptos_resume oc (s\<lparr>pending := qs\<rparr>)))"
      using q by (simp add: resume_honours)
    with TableAnswer Cons qs show ?thesis
      by (simp add: table_side_ok_def resume_frame)
  qed
next
  case (FeedAnswer r)
  with assms(1) show ?thesis by (simp add: poll_settle_def table_side_ok_def)
next
  case Unmount
  with assms(1) show ?thesis by (simp add: cleanup_def table_side_ok_def)
qed

lemma run_table_side:
  "table_side_ok s \<Longrightarrow> service_honours evs s \<Longrightarrow> table_side_ok (run evs s)"
proof (induction evs arbitrary: s)
  case Nil
  then show ?case by (simp add: run_def)
next
  case (Cons e evs)
  from Cons.prems have "table_side_ok (step e s)" "service_honours evs (step e s)"
    by (simp_all add: step_table_side)
  then have "table_side_ok (run evs (step e s))" by (rule Cons.IH)
  then show ?case by (simp add: run_Cons)
qed

subsection \<open>The \<^verbatim>\<open>||\<close> chains\<close>

lemma or_else_absent: "absent a \<Longrightarrow> or_else a b = b"
  by (auto simp: absent_def or_else_def truthy_js_def)

lemma or_else_number: "or_else (Some (JNum x)) (Some (JNum 0)) = Some (JNum x)"
  by (simp add: or_else_def truthy_js_def)

lemma or_else_numeric:
  "numeric a \<or> absent a \<Longrightarrow> numeric b \<Longrightarrow> numeric (or_else a b)"
  by (auto simp: or_else_def numeric_def absent_def truthy_js_def split: option.splits json.splits)

lemma or_else_numeric_absent:
  "numeric a \<or> absent a \<Longrightarrow> numeric b \<or> absent b \<Longrightarrow> numeric (or_else a b) \<or> absent (or_else a b)"
  by (auto simp: or_else_def)

lemma choose_number:
  "(absent a \<and> absent b \<longrightarrow> or_else (or_else a b) (Some (JNum 0)) = Some (JNum 0)) \<and>
   (a = Some (JNum x) \<and> absent b \<longrightarrow> or_else (or_else a b) (Some (JNum 0)) = Some (JNum x)) \<and>
   (absent a \<and> b = Some (JNum x) \<longrightarrow> or_else (or_else a b) (Some (JNum 0)) = Some (JNum x)) \<and>
   ((numeric a \<or> absent a) \<and> (numeric b \<or> absent b) \<longrightarrow>
      numeric (or_else (or_else a b) (Some (JNum 0))))"
proof -
  have n0: "numeric (Some (JNum 0))" by (simp add: numeric_def)
  have "or_else (or_else (Some (JNum x)) b) (Some (JNum 0)) = Some (JNum x)" if "absent b"
  proof (cases "x = 0")
    case True
    then have "or_else (Some (JNum x)) b = b" by (simp add: or_else_def truthy_js_def)
    with that True show ?thesis by (simp add: or_else_absent)
  next
    case False
    then show ?thesis by (simp add: or_else_def truthy_js_def)
  qed
  moreover have "numeric (or_else (or_else a b) (Some (JNum 0)))"
    if "numeric a \<or> absent a" "numeric b \<or> absent b"
    using or_else_numeric_absent [OF that] n0 by (rule or_else_numeric)
  ultimately show ?thesis
    by (auto simp: or_else_absent or_else_number)
qed

subsection \<open>Descending market caps\<close>

lemma numeric_rows_descending:
  assumes "honours crypto_query rows"
    and "\<forall>r \<in> set rows. numeric (field r ''market_cap'')"
  shows "sorted_wrt (\<lambda>r1 r2. displayed_marketCap r2 \<le> displayed_marketCap r1) rows"
proof -
  have key: "column_key ''market_cap'' r = Some (displayed_marketCap r)"
    if "numeric (field r ''market_cap'')" for r
    using that
    by (auto simp: numeric_def column_key_def displayed_marketCap_def marketCap_of_def
        or_else_number split: option.splits json.splits)
  have "sorted_wrt
          (\<lambda>r1 r2. null_largest_le (column_key ''market_cap'' r2) (column_key ''market_cap'' r1)) rows"
    using assms(1) by (simp add: honours_crypto_query)
  then show ?thesis
  proof (rule sorted_wrt_mono_rel [rotated])
    fix r1 r2
    assume "r1 \<in> set rows" "r2 \<in> set rows"
      and "null_largest_le (column_key ''market_cap'' r2) (column_key ''market_cap'' r1)"
    with assms(2) show "displayed_marketCap r2 \<le> displayed_marketCap r1"
      by (simp add: key null_largest_le_def)
  qed
qed

subsection \<open>Rows and the table\<close>

lemma render_row_Inr: "crypto \<noteq> JNull \<Longrightarrow> \<exists>v. render_row rt index crypto = Inr v"
  by (simp add: render_row_def Let_def)

lemma render_rows_total:
  "JNull \<notin> set rows \<Longrightarrow> \<exists>vs. render_rows rt index rows = Inr vs \<and> length vs = length rows"
proof (induction rows arbitrary: index)
  case Nil
  show ?case by simp
next
  case (Cons crypto rest)
  from Cons.prems have "crypto \<noteq> JNull" by auto
  then obtain v where v: "render_row rt index crypto = Inr v"
    using render_row_Inr by blast
  from Cons.prems have "JNull \<notin> set rest" by simp
  then obtain vs where vs: "render_rows rt (index + 1) rest = Inr vs" "length vs = length rest"
    using Cons.IH by blast
  from vs(1) have "render_rows rt (Suc index) rest = Inr vs" by simp
  with v vs(2) show ?case by simp
qed

lemma data_table_rows:
  "JNull \<notin> set rows \<Longrightarrow>
     \<exists>vs. data_table rt (JArr rows) = Inr (Dashboard (Table vs)) \<and> length vs = length rows"
  using render_rows_total [of rows rt 0] by (auto simp: data_table_def)

lemma data_table_not_Spinner: "data_table rt d \<noteq> Inr (Dashboard Spinner)"
  by (auto simp: data_table_def split: json.splits sum.splits)

lemma dashboard_array:
  assumes "displayData s = JArr rows"
  shows "dashboard rt s =
           (if loading s \<and> rows = [] then Inr (Dashboard Spinner) else data_table rt (JArr rows))"
  using assms by (simp add: dashboard_def get_prop_def truthy_js_def Let_def)

subsection \<open>Decimal digits\<close>

lemma digits_small: "n < 10 \<Longrightarrow> digits n = [digit_char n]"
  by (subst digits.simps) simp

lemma digits_large: "10 \<le> n \<Longrightarrow> digits n = digits (n div 10) @ [digit_char (n mod 10)]"
  by (subst digits.simps) simp

lemma digit_char_0: "digit_char 0 = CHR ''0''"
  by (simp add: digit_char_def)

lemma length_digits_pos: "0 < length (digits n)"
proof (cases "n < 10")
  case True
  then show ?thesis by (simp add: digits_small)
next
  case False
  then have "digits n = digits (n div 10) @ [digit_char (n mod 10)]"
    by (intro digits_large) simp
  then show ?thesis by simp
qed

lemma digits_two:
  assumes "10 \<le> n" and "n < 100"
  shows "digits n = [digit_char (n div 10), digit_char (n mod 10)]"
proof -
  have "n div 10 < 10" using assms by simp
  then have "digits (n div 10) = [digit_char (n div 10)]" by (rule digits_small)
  then show ?thesis using digits_large [OF assms(1)] by simp
qed

lemma digits_hundreds:
  assumes "100 \<le> n"
  shows "digits n = digits (n div 100) @ [digit_char (n mod 100 div 10), digit_char (n mod 10)]"
proof -
  have a: "10 \<le> n" using assms by simp
  have b: "10 \<le> n div 10" using assms by simp
  have c: "n div 10 div 10 = n div 100"
    by (simp add: div_mult2_eq [symmetric])
  have "n mod (10 * 10) = 10 * (n div 10 mod 10) + n mod 10"
    by (rule mod_mult2_eq)
  then have "n mod 100 = 10 * (n div 10 mod 10) + n mod 10" by simp
  then have d: "n div 10 mod 10 = n mod 100 div 10" by simp
  have "digits n = digits (n div 10) @ [digit_char (n mod 10)]"
    by (rule digits_large [OF a])
  also have "digits (n div 10) = digits (n div 10 div 10) @ [digit_char (n div 10 mod 10)]"
    by (rule digits_large [OF b])
  finally show ?thesis by (simp add: c d)
qed

lemma fixed_digits_2:
  "fixed_digits 2 n =
     digits (n div 100) @ ''.'' @ [digit_char (n mod 100 div 10), digit_char (n mod 10)]"
proof -
  consider "n < 10" | "10 \<le> n" "n < 100" | "100 \<le> n" by linarith
  then show ?thesis
  proof cases
    case 1
    then show ?thesis
      by (simp add: fixed_digits_def digits_small digit_char_0 numeral_3_eq_3)
  next
    case 2
    then show ?thesis
      by (simp add: fixed_digits_def digits_two digits_small digit_char_0)
  next
    case 3
    have "0 < length (digits (n div 100))" by (rule length_digits_pos)
    with 3 show ?thesis
      by (simp add: fixed_digits_def digits_hundreds [OF 3])
  qed
qed

lemma toFixed_2_rounded:
  assumes "0 \<le> a" and "a < 10 ^ 21"
  shows "toFixed rt 2 a = rounded_2_decimals a"
proof -
  have "toFixed rt 2 a = fixed_digits 2 (nearest_hundredth a)"
    using assms by (simp add: toFixed_def nearest_hundredth_def Let_def)
  then show ?thesis
    by (simp add: fixed_digits_2 rounded_2_decimals_def Let_def)
qed

lemma nearest_hundredth_close:
  assumes "0 \<le> a"
  shows "\<bar>of_nat (nearest_hundredth a) / 100 - a\<bar> \<le> 1 / 200"
proof -
  define r :: rat where "r = of_int \<lfloor>a * 100 + 1 / 2\<rfloor>"
  have lo: "r \<le> a * 100 + 1 / 2"
    unfolding r_def by (rule of_int_floor_le)
  have "a * 100 + 1 / 2 < of_int (\<lfloor>a * 100 + 1 / 2\<rfloor> + 1)"
    by (rule floor_correct [THEN conjunct2])
  then have hi: "a * 100 + 1 / 2 < r + 1"
    unfolding r_def by simp
  have "0 \<le> \<lfloor>a * 100 + 1 / 2\<rfloor>"
    using assms by simp
  then have "(of_nat (nearest_hundredth a) :: rat) = r"
    unfolding r_def nearest_hundredth_def by simp
  with lo hi show ?thesis
    by (simp only: abs_le_iff) linarith
qed

subsection \<open>The value of a digit string\<close>

lemma digit_value:
  assumes "d < 10"
  shows "of_char (digit_char d) - 48 = d"
proof -
  from assms have "d = 0 \<or> d = 1 \<or> d = 2 \<or> d = 3 \<or> d = 4 \<or> d = 5 \<or> d = 6 \<or> d = 7 \<or> d = 8 \<or> d = 9"
    by arith
  then show ?thesis
    by (elim disjE) (simp_all add: digit_char_def)
qed

lemma decimal_value_snoc:
  "decimal_value (cs @ [c]) = 10 * decimal_value cs + (of_char c - 48)"
  by (simp add: decimal_value_def)

lemma decimal_value_digits: "decimal_value (digits n) = n"
proof (induction n rule: digits.induct)
  case (1 n)
  show ?case
  proof (cases "n < 10")
    case True
    then show ?thesis
      by (simp add: digits_small decimal_value_def digit_value)
  next
    case False
    then have "digits n = digits (n div 10) @ [digit_char (n mod 10)]"
      by (intro digits_large) simp
    moreover have "decimal_value (digits (n div 10)) = n div 10"
      using False by (rule "1.IH")
    ultimately show ?thesis
      by (simp add: decimal_value_snoc digit_value)
  qed
qed

lemma decimal_value_hundredths:
  "decimal_value (digits (n div 100) @ [digit_char (n mod 100 div 10), digit_char (n mod 10)]) = n"
proof -
  have a: "n mod 100 div 10 < 10" by simp
  have b: "n mod 10 < 10" by simp
  have "n mod (10 * 10) = 10 * (n div 10 mod 10) + n mod 10"
    by (rule mod_mult2_eq)
  then have m: "n mod 100 = 10 * (n div 10 mod 10) + n mod 10" by simp
  then have d: "n mod 100 div 10 = n div 10 mod 10" by simp
  have "decimal_value (digits (n div 100) @ [digit_char (n mod 100 div 10), digit_char (n mod 10)])
        = decimal_value ((digits (n div 100) @ [digit_char (n mod 100 div 10)]) @ [digit_char (n mod 10)])"
    by simp
  also have "\<dots> = 10 * (10 * (n div 100) + n mod 100 div 10) + n mod 10"
    by (simp only: decimal_value_snoc decimal_value_digits digit_value [OF a] digit_value [OF b])
  also have "\<dots> = 100 * (n div 100) + n mod 100"
    using m d by simp
  also have "\<dots> = n" by simp
  finally show ?thesis .
qed

subsection \<open>Sample records\<close>

lemma feed_record_change: "change_of feed_record = Some (JNum (- 3456 / 1000))"
  by (simp add: change_of_def feed_record_def or_else_def truthy_js_def)

lemma table_row_change: "change_of table_row = Some (JNum (5 / 4))"
  by (simp add: change_of_def table_row_def or_else_def truthy_js_def)

section \<open>The properties\<close>

subsection \<open>The resolved display list\<close>

text \<open>
  C1. Whenever the feed's records are present, \<open>displayData\<close> is that sequence as a
  whole, also when it is the empty sequence of a successful poll; when they are
  absent it is the table's records as a whole. The result is one of the two
  sequences, never a mixture of their records.
\<close>

theorem displayData_live_else_table:
  "(liveData s = Some (JArr live) \<longrightarrow> displayData s = JArr live) \<and>
   (liveData s = None \<longrightarrow> displayData s = JArr (cryptos s))"
  by (simp add: displayData_def)

text \<open>An empty poll result, a poll result with a record, and no poll result yet.\<close>

theorem displayData_live_else_table_witness:
  "displayData (initial\<lparr>cryptos := [table_row], liveData := Some (JArr [])\<rparr>) = JArr [] \<and>
   displayData (initial\<lparr>cryptos := [table_row], liveData := Some (JArr [feed_record])\<rparr>) = JArr [feed_record] \<and>
   displayData (initial\<lparr>cryptos := [table_row]\<rparr>) = JArr [table_row]"
  using displayData_live_else_table [of "initial\<lparr>cryptos := [table_row], liveData := Some (JArr [])\<rparr>" "[]"]
    displayData_live_else_table [of "initial\<lparr>cryptos := [table_row], liveData := Some (JArr [feed_record])\<rparr>" "[feed_record]"]
    displayData_live_else_table [of "initial\<lparr>cryptos := [table_row]\<rparr>"]
  by (simp add: initial_def)

subsection \<open>A table fetch that succeeds\<close>

text \<open>
  C2, as the program has it. An answer without an error (\<open>error\<close> is \<^verbatim>\<open>null\<close>, or falsy
  at all) replaces \<open>cryptos\<close> with the rows fetched (with the empty sequence when
  \<open>data\<close> is \<^verbatim>\<open>null\<close>) and sets \<open>loading\<close> to false, and the promise is fulfilled. It does
  not touch \<open>error\<close>: the program calls \<^verbatim>\<open>setError\<close> in the \<^verbatim>\<open>catch\<close> block only, so the
  message of an earlier failure stays.
\<close>

theorem fetchCryptos_resume_success:
  "\<not> truthy_js err \<longrightarrow>
     fetchCryptos_resume (Resolved data err) s =
       s\<lparr>cryptos := (case data of Some rows \<Rightarrow> rows | None \<Rightarrow> []), loading := False\<rparr> \<and>
     snd (fetchCryptos_settle (Resolved data err) s) = Fulfilled \<and>
     cryptos (fetchCryptos_resume (Resolved (Some rows) err) s) = rows \<and>
     cryptos (fetchCryptos_resume (Resolved None err) s) = [] \<and>
     loading (fetchCryptos_resume (Resolved data err) s) = False \<and>
     error (fetchCryptos_resume (Resolved data err) s) = error s"
  by (simp add: fetchCryptos_resume_def settle_success)

theorem fetchCryptos_resume_success_witness:
  "fetchCryptos_resume (Resolved (Some [table_row2, table_row]) (Some JNull)) (fetchCryptos initial) =
     \<lparr>cryptos = [table_row2, table_row], loading = False, error = Some JNull, liveData = None,
      pending = [crypto_query], subscribed = False\<rparr>"
  using fetchCryptos_resume_success [of "Some JNull" "Some [table_row2, table_row]"
      "fetchCryptos initial"]
  by (simp add: fetchCryptos_def initial_def truthy_js_def)

text \<open>
  C2, as the specification words it, fails: the first fetch fails with the message
  \<open>timeout\<close>, a change notification starts a second fetch, the second fetch succeeds,
  and the message is still there.
\<close>

theorem successful_fetch_keeps_lastError:
  "error (run [Mount, TableAnswer (Resolved None (Some (error_object ''timeout''))),
               Notification change_payload,
               TableAnswer (Resolved (Some [table_row]) (Some JNull))] initial)
     = Some (JStr ''timeout'')"
  by (simp add: run_def initial_def on_mount_def on_change_def fetchCryptos_def
      fetchCryptos_resume_def fetchCryptos_settle_def try_block_def catch_block_def
      get_prop_def finally_block_def truthy_js_def error_object_def)

subsection \<open>A table fetch that fails\<close>


text \<open>
  Every other failure is caught as C3 says: a truthy \<open>error\<close> of the client's answer
  and a rejection with any value but \<^verbatim>\<open>undefined\<close> and \<^verbatim>\<open>null\<close> put the value's \<^verbatim>\<open>message\<close>
  into \<open>error\<close> (\<^verbatim>\<open>undefined\<close> when it has none) and fulfil the promise; whenever the
  \<^verbatim>\<open>try\<close> block throws, \<open>cryptos\<close> keeps its value; and \<open>loading\<close> is false after every
  outcome.
\<close>

theorem fetchCryptos_failure_caught:
  "(truthy_js err \<longrightarrow>
      (\<exists>v. err = Some v \<and>
           fetchCryptos_settle (Resolved data err) s =
             (s\<lparr>error := field v ''message'', loading := False\<rparr>, Fulfilled))) \<and>
   (v \<noteq> JNull \<longrightarrow>
      fetchCryptos_settle (Rejected (Some v)) s =
        (s\<lparr>error := field v ''message'', loading := False\<rparr>, Fulfilled)) \<and>
   (\<forall>e. try_block oc s = Inl e \<longrightarrow> cryptos (fst (fetchCryptos_settle oc s)) = cryptos s) \<and>
   loading (fst (fetchCryptos_settle oc s)) = False"
proof -
  have a: "\<exists>v. err = Some v \<and>
           fetchCryptos_settle (Resolved data err) s =
             (s\<lparr>error := field v ''message'', loading := False\<rparr>, Fulfilled)" if "truthy_js err"
  proof -
    from that obtain v where v: "err = Some v" "truthy v"
      by (auto simp: truthy_js_def split: option.splits)
    then have "v \<noteq> JNull" by auto
    moreover have "try_block (Resolved data err) s = Inl err"
      using that by (simp add: try_block_def)
    ultimately show ?thesis
      using v(1) by (simp add: settle_thrown catch_block_value finally_block_def)
  qed
  have b: "fetchCryptos_settle (Rejected (Some v)) s =
        (s\<lparr>error := field v ''message'', loading := False\<rparr>, Fulfilled)" if "v \<noteq> JNull"
  proof -
    have "try_block (Rejected (Some v)) s = Inl (Some v)"
      by (simp add: try_block_def)
    with that show ?thesis
      by (simp add: settle_thrown catch_block_value finally_block_def)
  qed
  have c: "cryptos (fst (fetchCryptos_settle oc s)) = cryptos s" if "try_block oc s = Inl e" for e
    using that resume_cryptos [of oc s] by (simp add: fetchCryptos_resume_def)
  have d: "loading (fst (fetchCryptos_settle oc s)) = False"
    using resume_frame(4) [of oc s] by (simp add: fetchCryptos_resume_def)
  from a b c d show ?thesis by blast
qed

text \<open>
  An error object of the client, an exception of \<^verbatim>\<open>fetch\<close>, and an error object
  without a message.
\<close>

theorem fetchCryptos_failure_caught_witness:
  "fetchCryptos_settle (Resolved None (Some (error_object ''timeout'')))
     (fetchCryptos (initial\<lparr>cryptos := [table_row]\<rparr>)) =
     (\<lparr>cryptos = [table_row], loading = False, error = Some (JStr ''timeout''), liveData = None,
       pending = [crypto_query], subscribed = False\<rparr>, Fulfilled) \<and>
   fetchCryptos_settle (Rejected (Some (JObj [(''message'', JStr ''Failed to fetch'')])))
     (fetchCryptos (initial\<lparr>cryptos := [table_row]\<rparr>)) =
     (\<lparr>cryptos = [table_row], loading = False, error = Some (JStr ''Failed to fetch''),
       liveData = None, pending = [crypto_query], subscribed = False\<rparr>, Fulfilled) \<and>
   fetchCryptos_settle (Resolved None (Some (JObj [(''error'', JStr ''Bad Gateway'')])))
     (fetchCryptos (initial\<lparr>cryptos := [table_row]\<rparr>)) =
     (\<lparr>cryptos = [table_row], loading = False, error = None, liveData = None,
       pending = [crypto_query], subscribed = False\<rparr>, Fulfilled)"
proof -
  let ?s = "fetchCryptos (initial\<lparr>cryptos := [table_row]\<rparr>)"
  have t: "truthy_js (Some (error_object ''timeout''))"
    "truthy_js (Some (JObj [(''error'', JStr ''Bad Gateway'')]))"
    by (simp_all add: truthy_js_def error_object_def)
  have n: "JObj [(''message'', JStr ''Failed to fetch'')] \<noteq> JNull" by simp
  have a: "fetchCryptos_settle (Resolved None (Some (error_object ''timeout''))) ?s =
      (?s\<lparr>error := field (error_object ''timeout'') ''message'', loading := False\<rparr>, Fulfilled)"
    using fetchCryptos_failure_caught [of "Some (error_object ''timeout'')" None ?s] t(1) by simp
  have b: "fetchCryptos_settle (Rejected (Some (JObj [(''message'', JStr ''Failed to fetch'')]))) ?s =
      (?s\<lparr>error := field (JObj [(''message'', JStr ''Failed to fetch'')]) ''message'',
          loading := False\<rparr>, Fulfilled)"
    using fetchCryptos_failure_caught [where v = "JObj [(''message'', JStr ''Failed to fetch'')]"
        and s = ?s] n by blast
  have c: "fetchCryptos_settle (Resolved None (Some (JObj [(''error'', JStr ''Bad Gateway'')]))) ?s =
      (?s\<lparr>error := field (JObj [(''error'', JStr ''Bad Gateway'')]) ''message'',
          loading := False\<rparr>, Fulfilled)"
    using fetchCryptos_failure_caught [of "Some (JObj [(''error'', JStr ''Bad Gateway'')])" None ?s]
      t(2) by simp
  show ?thesis
    unfolding a b c by (simp add: fetchCryptos_def initial_def error_object_def)
qed

subsection \<open>What \<^verbatim>\<open>Home\<close> renders\<close>

text \<open>
  C4 says that the error panel replaces the dashboard when \<open>error\<close> is set, and that
  otherwise the spinner is rendered exactly when \<open>loading\<close> holds and the resolved
  display list is empty, the table else. The program misses it twice. A fetch that
  fails with an empty message, or with an error object that has no message, leaves
  a falsy value in \<open>error\<close>, for which \<^verbatim>\<open>if (error)\<close> does not hold: the dashboard is
  rendered with an empty table. And when the feed answers a rate-limited request
  with its error object, that object is the resolved display data: while loading,
  the spinner is rendered over it, and after loading \<^verbatim>\<open>displayData.map\<close> raises a
  TypeError where the table should be.
\<close>

theorem Home_misses_panel_and_table:
  "error (run [Mount, TableAnswer (Resolved None (Some (error_object [])))] initial)
     = Some (JStr []) \<and>
   loading (run [Mount, TableAnswer (Resolved None (Some (error_object [])))] initial) = False \<and>
   Home sample_ecma (run [Mount, TableAnswer (Resolved None (Some (error_object [])))] initial)
     = Inr (Dashboard (Table [])) \<and>
   error (run [Mount, TableAnswer (Resolved None (Some (JObj [(''error'', JStr ''Bad Gateway'')])))]
            initial) = None \<and>
   Home sample_ecma
     (run [Mount, TableAnswer (Resolved None (Some (JObj [(''error'', JStr ''Bad Gateway'')])))]
        initial) = Inr (Dashboard (Table [])) \<and>
   displayData (run [Mount, FeedAnswer (Response \<lparr>status = 429, parsed = Some rate_limit_body\<rparr>)]
                  initial) = rate_limit_body \<and>
   Home sample_ecma
     (run [Mount, FeedAnswer (Response \<lparr>status = 429, parsed = Some rate_limit_body\<rparr>)] initial)
     = Inr (Dashboard Spinner) \<and>
   loading (run [Mount, FeedAnswer (Response \<lparr>status = 429, parsed = Some rate_limit_body\<rparr>),
                 TableAnswer (Resolved (Some [table_row]) (Some JNull))] initial) = False \<and>
   Home sample_ecma
     (run [Mount, FeedAnswer (Response \<lparr>status = 429, parsed = Some rate_limit_body\<rparr>),
           TableAnswer (Resolved (Some [table_row]) (Some JNull))] initial)
     = Inl TypeError"
  by (simp add: run_def initial_def on_mount_def fetchCryptos_def fetchCryptos_resume_def
      fetchCryptos_settle_def try_block_def catch_block_def get_prop_def finally_block_def
      poll_settle_def fetcher_def useSWR_settle_def truthy_js_def error_object_def
      rate_limit_body_def Home_def dashboard_def displayData_def data_table_def)

text \<open>
  Where \<open>Home\<close> does what C4 says: for a truthy \<open>error\<close> the panel is the whole
  output, whatever \<open>loading\<close> and the data are; for a falsy \<open>error\<close> and display data
  that are a sequence of records, the spinner is rendered exactly when \<open>loading\<close>
  holds and the sequence is empty, and otherwise the table branch is taken, which
  gives one row per record when no record is \<^verbatim>\<open>null\<close>.
\<close>

theorem Home_dispatch:
  "(error s = Some m \<and> truthy m \<longrightarrow> Home rt s = Inr (ErrorPanel m)) \<and>
   (\<not> truthy_js (error s) \<and> displayData s = JArr rows \<longrightarrow>
      (Home rt s = Inr (Dashboard Spinner)) = (loading s \<and> rows = []) \<and>
      (\<not> (loading s \<and> rows = []) \<longrightarrow> Home rt s = data_table rt (JArr rows)) \<and>
      (\<not> (loading s \<and> rows = []) \<and> JNull \<notin> set rows \<longrightarrow>
         (\<exists>vs. Home rt s = Inr (Dashboard (Table vs)) \<and> length vs = length rows)))"
proof -
  have panel: "Home rt s = Inr (ErrorPanel m)" if "error s = Some m" "truthy m"
    using that by (simp add: Home_def)
  have dash: "Home rt s = (if loading s \<and> rows = [] then Inr (Dashboard Spinner)
                           else data_table rt (JArr rows))"
    if "\<not> truthy_js (error s)" "displayData s = JArr rows"
    using that dashboard_array [of s rows rt]
    by (auto simp: Home_def truthy_js_def split: option.splits)
  show ?thesis
    using panel dash data_table_not_Spinner [of rt "JArr rows"] data_table_rows [of rows rt]
    by auto
qed

text \<open>A failed fetch, the first render after mount, and a table of two rows.\<close>

theorem Home_dispatch_witness:
  "Home sample_ecma (run [Mount, TableAnswer (Resolved None (Some (error_object ''timeout'')))] initial)
     = Inr (ErrorPanel (JStr ''timeout'')) \<and>
   Home sample_ecma (run [Mount] initial) = Inr (Dashboard Spinner) \<and>
   (\<exists>vs. Home sample_ecma
            (run [Mount, TableAnswer (Resolved (Some [table_row2, table_row]) (Some JNull))] initial)
            = Inr (Dashboard (Table vs)) \<and> length vs = 2)"
proof -
  let ?s1 = "run [Mount, TableAnswer (Resolved None (Some (error_object ''timeout'')))] initial"
  let ?s2 = "run [Mount] initial"
  let ?s3 = "run [Mount, TableAnswer (Resolved (Some [table_row2, table_row]) (Some JNull))] initial"
  have s1: "error ?s1 = Some (JStr ''timeout'')"
    by (simp add: run_def initial_def on_mount_def fetchCryptos_def fetchCryptos_resume_def
        fetchCryptos_settle_def try_block_def catch_block_def get_prop_def finally_block_def
        truthy_js_def error_object_def)
  have s2: "\<not> truthy_js (error ?s2)" "displayData ?s2 = JArr []" "loading ?s2"
    by (simp_all add: run_def initial_def on_mount_def fetchCryptos_def displayData_def
        truthy_js_def)
  have s3: "\<not> truthy_js (error ?s3)" "displayData ?s3 = JArr [table_row2, table_row]"
    "\<not> loading ?s3"
    by (simp_all add: run_def initial_def on_mount_def fetchCryptos_def fetchCryptos_resume_def
        fetchCryptos_settle_def try_block_def finally_block_def displayData_def truthy_js_def)
  have rows: "JNull \<notin> set [table_row2, table_row]"
    by (simp add: table_row_def table_row2_def)
  have a: "Home sample_ecma ?s1 = Inr (ErrorPanel (JStr ''timeout''))"
    using Home_dispatch [of ?s1 "JStr ''timeout''" sample_ecma] s1 by simp
  have b: "Home sample_ecma ?s2 = Inr (Dashboard Spinner)"
    using Home_dispatch [of ?s2 _ sample_ecma "[]"] s2 by simp
  have "\<exists>vs. Home sample_ecma ?s3 = Inr (Dashboard (Table vs)) \<and>
          length vs = length [table_row2, table_row]"
    using Home_dispatch [of ?s3 _ sample_ecma "[table_row2, table_row]"] s3 rows by blast
  then have c: "\<exists>vs. Home sample_ecma ?s3 = Inr (Dashboard (Table vs)) \<and> length vs = 2"
    by (simp add: numeral_2_eq_2)
  from a b c show ?thesis by blast
qed

subsection \<open>The table's records stay a top-20 snapshot\<close>

text \<open>
  C5. Assume that the table service honours, in each of its answers, the query the
  component issued for it. Then in every state the component reaches from its
  initial state, \<open>cryptos\<close> has at most 20 rows in descending order of \<^verbatim>\<open>market_cap\<close>
  (when every row has a number there, the market caps displayed descend); and a
  successful answer to the query of a single \<open>fetchCryptos\<close> makes \<open>cryptos\<close> the rows
  of that answer, which are such a sequence. The bound and the order come from the
  query that \<open>fetchCryptos\<close> puts into \<open>pending\<close>.
\<close>

theorem tableRecords_top20_descending:
  assumes "service_honours evs initial"
  shows "length (cryptos (run evs initial)) \<le> 20 \<and>
         sorted_wrt (\<lambda>r1 r2. null_largest_le (column_key ''market_cap'' r2) (column_key ''market_cap'' r1))
           (cryptos (run evs initial)) \<and>
         ((\<forall>r \<in> set (cryptos (run evs initial)). numeric (field r ''market_cap'')) \<longrightarrow>
           sorted_wrt (\<lambda>r1 r2. displayed_marketCap r2 \<le> displayed_marketCap r1)
             (cryptos (run evs initial))) \<and>
         (pending s = [] \<and> \<not> truthy_js err \<and>
          event_honours (TableAnswer (Resolved (Some rows) err)) (fetchCryptos s) \<longrightarrow>
           cryptos (step (TableAnswer (Resolved (Some rows) err)) (fetchCryptos s)) = rows \<and>
           length rows \<le> 20 \<and>
           sorted_wrt (\<lambda>r1 r2. null_largest_le (column_key ''market_cap'' r2) (column_key ''market_cap'' r1)) rows)"
proof -
  have "table_side_ok (run evs initial)"
    using table_side_initial assms by (rule run_table_side)
  then have inv: "honours crypto_query (cryptos (run evs initial))"
    by (simp add: table_side_ok_def)
  have one: "cryptos (step (TableAnswer (Resolved (Some rows) err)) (fetchCryptos s)) = rows \<and>
      honours crypto_query rows"
    if "pending s = []" "\<not> truthy_js err"
      "event_honours (TableAnswer (Resolved (Some rows) err)) (fetchCryptos s)"
  proof -
    from that(1) have p: "pending (fetchCryptos s) = [crypto_query]"
      by (simp add: fetchCryptos_def)
    with that(3) have "honours crypto_query rows"
      by (simp add: event_honours_def answer_honours_def)
    moreover have "cryptos (step (TableAnswer (Resolved (Some rows) err)) (fetchCryptos s)) = rows"
      using p that(2) by (simp add: fetchCryptos_resume_def settle_success)
    ultimately show ?thesis by simp
  qed
  from inv numeric_rows_descending [OF inv] one show ?thesis
    by (simp add: honours_crypto_query)
qed

text \<open>Mount, then an answer with two rows: Bitcoin before Ethereum.\<close>

theorem tableRecords_top20_descending_witness:
  "service_honours [Mount, TableAnswer (Resolved (Some [table_row2, table_row]) (Some JNull))] initial \<and>
   cryptos (run [Mount, TableAnswer (Resolved (Some [table_row2, table_row]) (Some JNull))] initial)
     = [table_row2, table_row] \<and>
   length [table_row2, table_row] \<le> 20 \<and>
   sorted_wrt (\<lambda>r1 r2. null_largest_le (column_key ''market_cap'' r2) (column_key ''market_cap'' r1))
     [table_row2, table_row] \<and>
   sorted_wrt (\<lambda>r1 r2. displayed_marketCap r2 \<le> displayed_marketCap r1) [table_row2, table_row]"
proof -
  let ?evs = "[Mount, TableAnswer (Resolved (Some [table_row2, table_row]) (Some JNull))]"
  have h: "honours crypto_query [table_row2, table_row]"
    by (simp add: honours_crypto_query table_row_def table_row2_def column_key_def
        null_largest_le_def)
  have ev: "service_honours ?evs initial"
    using h by (simp add: event_honours_def answer_honours_def on_mount_def fetchCryptos_def
        initial_def)
  have r: "cryptos (run ?evs initial) = [table_row2, table_row]"
    by (simp add: run_def initial_def on_mount_def fetchCryptos_def fetchCryptos_resume_def
        fetchCryptos_settle_def try_block_def finally_block_def truthy_js_def)
  have n: "\<forall>r \<in> set [table_row2, table_row]. numeric (field r ''market_cap'')"
    by (simp add: table_row_def table_row2_def numeric_def)
  show ?thesis
    using ev r n tableRecords_top20_descending [OF ev] by simp
qed

subsection \<open>The values a row displays\<close>

text \<open>
  C6. For a record that renders, the price displayed is the number in
  \<^verbatim>\<open>current_price\<close> when \<^verbatim>\<open>price\<close> is absent, the number in \<^verbatim>\<open>price\<close> when \<^verbatim>\<open>current_price\<close> is
  absent, and 0 when both are absent; it is one number whenever each of the two
  fields is a number or absent. The change percent the badge is made from is
  resolved from \<^verbatim>\<open>price_change_percentage_24h\<close> and \<^verbatim>\<open>change_24h\<close> by the same rule. The
  market cap displayed is the number in \<^verbatim>\<open>market_cap\<close>, and 0 when that is absent.
\<close>

theorem resolved_cells:
  assumes "render_row rt index crypto = Inr v"
  shows
   "(absent (field crypto ''current_price'') \<and> absent (field crypto ''price'')
       \<longrightarrow> price_cell v = Some (JNum 0)) \<and>
    (field crypto ''current_price'' = Some (JNum x) \<and> absent (field crypto ''price'')
       \<longrightarrow> price_cell v = Some (JNum x)) \<and>
    (absent (field crypto ''current_price'') \<and> field crypto ''price'' = Some (JNum x)
       \<longrightarrow> price_cell v = Some (JNum x)) \<and>
    ((numeric (field crypto ''current_price'') \<or> absent (field crypto ''current_price'')) \<and>
     (numeric (field crypto ''price'') \<or> absent (field crypto ''price''))
       \<longrightarrow> numeric (price_cell v)) \<and>
    (absent (field crypto ''price_change_percentage_24h'') \<and> absent (field crypto ''change_24h'')
       \<longrightarrow> change_of crypto = Some (JNum 0)) \<and>
    (field crypto ''price_change_percentage_24h'' = Some (JNum y) \<and> absent (field crypto ''change_24h'')
       \<longrightarrow> change_of crypto = Some (JNum y)) \<and>
    (absent (field crypto ''price_change_percentage_24h'') \<and> field crypto ''change_24h'' = Some (JNum y)
       \<longrightarrow> change_of crypto = Some (JNum y)) \<and>
    ((numeric (field crypto ''price_change_percentage_24h'') \<or>
        absent (field crypto ''price_change_percentage_24h'')) \<and>
     (numeric (field crypto ''change_24h'') \<or> absent (field crypto ''change_24h''))
       \<longrightarrow> numeric (change_of crypto)) \<and>
    change_text v = badge_text rt (change_of crypto) \<and>
    (absent (field crypto ''market_cap'') \<longrightarrow> marketCap_cell v = Some (JNum 0)) \<and>
    (field crypto ''market_cap'' = Some (JNum z) \<longrightarrow> marketCap_cell v = Some (JNum z))"
proof -
  from assms have cells: "price_cell v = price_of crypto" "marketCap_cell v = marketCap_of crypto"
    "change_text v = badge_text rt (change_of crypto)"
    by (auto simp: render_row_def Let_def split: if_splits)
  note p = choose_number [of "field crypto ''current_price''" "field crypto ''price''" x]
  note c = choose_number [of "field crypto ''price_change_percentage_24h''" "field crypto ''change_24h''" y]
  have m: "absent (field crypto ''market_cap'') \<longrightarrow> marketCap_of crypto = Some (JNum 0)"
    "field crypto ''market_cap'' = Some (JNum z) \<longrightarrow> marketCap_of crypto = Some (JNum z)"
    by (simp_all add: marketCap_of_def or_else_absent or_else_number)
  show ?thesis
    unfolding cells using p c m
    unfolding price_of_def [symmetric] change_of_def [symmetric] by blast
qed

text \<open>A record of the feed, a row of the table, and a record with none of the fields.\<close>

theorem resolved_cells_witness:
  "\<exists>v w u. render_row sample_ecma 0 feed_record = Inr v \<and>
     price_cell v = Some (JNum 64000) \<and> change_of feed_record = Some (JNum (- 3456 / 1000)) \<and>
     marketCap_cell v = Some (JNum 1260000000000) \<and>
     render_row sample_ecma 1 table_row = Inr w \<and>
     price_cell w = Some (JNum 3100) \<and> change_of table_row = Some (JNum (5 / 4)) \<and>
     marketCap_cell w = Some (JNum 372000000000) \<and>
     render_row sample_ecma 2 (JObj [(''name'', JStr ''Nameless'')]) = Inr u \<and>
     price_cell u = Some (JNum 0) \<and> change_of (JObj [(''name'', JStr ''Nameless'')]) = Some (JNum 0) \<and>
     marketCap_cell u = Some (JNum 0)"
proof -
  let ?bare = "JObj [(''name'', JStr ''Nameless'')]"
  obtain v where v: "render_row sample_ecma 0 feed_record = Inr v"
    using render_row_Inr [of feed_record sample_ecma 0] by (auto simp: feed_record_def)
  obtain w where w: "render_row sample_ecma 1 table_row = Inr w"
    using render_row_Inr [of table_row sample_ecma 1] by (auto simp: table_row_def)
  obtain u where u: "render_row sample_ecma 2 ?bare = Inr u"
    using render_row_Inr [of ?bare sample_ecma 2] by auto
  have fv: "field feed_record ''current_price'' = Some (JNum 64000)"
    "absent (field feed_record ''price'')"
    "field feed_record ''price_change_percentage_24h'' = Some (JNum (- 3456 / 1000))"
    "absent (field feed_record ''change_24h'')"
    "field feed_record ''market_cap'' = Some (JNum 1260000000000)"
    by (simp_all add: feed_record_def absent_def)
  have fw: "absent (field table_row ''current_price'')"
    "field table_row ''price'' = Some (JNum 3100)"
    "absent (field table_row ''price_change_percentage_24h'')"
    "field table_row ''change_24h'' = Some (JNum (5 / 4))"
    "field table_row ''market_cap'' = Some (JNum 372000000000)"
    by (simp_all add: table_row_def absent_def)
  have fu: "absent (field ?bare ''current_price'')" "absent (field ?bare ''price'')"
    "absent (field ?bare ''price_change_percentage_24h'')" "absent (field ?bare ''change_24h'')"
    "absent (field ?bare ''market_cap'')"
    by (simp_all add: absent_def)
  have "price_cell v = Some (JNum 64000) \<and> change_of feed_record = Some (JNum (- 3456 / 1000)) \<and>
     marketCap_cell v = Some (JNum 1260000000000)"
    using resolved_cells [OF v, of 64000 "- 3456 / 1000" 1260000000000] fv by simp
  moreover have "price_cell w = Some (JNum 3100) \<and> change_of table_row = Some (JNum (5 / 4)) \<and>
     marketCap_cell w = Some (JNum 372000000000)"
    using resolved_cells [OF w, of 3100 "5 / 4" 372000000000] fw by simp
  moreover have "price_cell u = Some (JNum 0) \<and> change_of ?bare = Some (JNum 0) \<and>
     marketCap_cell u = Some (JNum 0)"
    using resolved_cells [OF u] fu by simp
  ultimately show ?thesis using v w u by blast
qed

subsection \<open>Change notifications\<close>

text \<open>
  C7. The callback of the subscription does the same for every payload: it calls
  \<open>fetchCryptos\<close>, which sets \<open>loading\<close> and issues the query for the first 20 rows by
  descending \<^verbatim>\<open>market_cap\<close>. So every notification the open channel delivers starts a
  fetch, whatever the event and the row.
\<close>

theorem on_change_refetches:
  "on_change p s = fetchCryptos s \<and>
   on_change p s = on_change p' s \<and>
   pending (on_change p s) = pending s @ [crypto_query] \<and>
   loading (on_change p s) = True \<and>
   order_column crypto_query = ''market_cap'' \<and> ascending crypto_query = False \<and>
   limit_rows crypto_query = 20 \<and>
   (subscribed s \<longrightarrow> step (Notification p) s = fetchCryptos s)"
  by (simp add: on_change_def fetchCryptos_def crypto_query_def)

theorem on_change_refetches_witness:
  "step (Notification change_payload) (run [Mount] initial) = fetchCryptos (run [Mount] initial) \<and>
   pending (step (Notification change_payload) (run [Mount] initial)) = [crypto_query, crypto_query] \<and>
   loading (step (Notification change_payload) (run [Mount] initial))"
proof -
  have s: "subscribed (run [Mount] initial)" "pending (run [Mount] initial) = [crypto_query]"
    by (simp_all add: run_def initial_def on_mount_def fetchCryptos_def)
  show ?thesis
    using on_change_refetches [of change_payload "run [Mount] initial" change_payload] s
    by (simp add: fetchCryptos_def)
qed

subsection \<open>The change badge\<close>

text \<open>
  C8. For a record whose resolved change is the number \<open>c\<close>: if \<open>0 \<le> c\<close> the badge has
  the green classes and its text starts with the bytes \<open>E2 86 91\<close>, the UTF-8 form of
  U+2191, the upwards arrow; otherwise it has the red classes and its text starts
  with \<open>E2 86 93\<close>, U+2193, the downwards arrow. After the arrow come a space,
  \<open>\<bar>c\<bar>\<close> to two decimals and a percent sign. Below \<open>10^21\<close> the two decimals are
  those of the hundredth nearest to \<open>\<bar>c\<bar>\<close>: the digits before and after the point,
  read as one decimal number, are that count of hundredths, which is within half a
  hundredth of \<open>\<bar>c\<bar>\<close>.
\<close>

theorem change_badge:
  assumes "render_row rt index crypto = Inr v" and "change_of crypto = Some (JNum c)"
  shows
   "isPositive rt (change_of crypto) = (0 \<le> c) \<and>
    (0 \<le> c \<longrightarrow>
       change_class v =
         ''inline-flex items-center px-2.5 py-0.5 rounded-full text-xs font-medium bg-green-500/20 text-green-400'' \<and>
       change_text v = [CHR 0xE2, CHR 0x86, CHR 0x91] @ '' '' @ toFixed rt 2 \<bar>c\<bar> @ ''%'') \<and>
    (c < 0 \<longrightarrow>
       change_class v =
         ''inline-flex items-center px-2.5 py-0.5 rounded-full text-xs font-medium bg-red-500/20 text-red-400'' \<and>
       change_text v = [CHR 0xE2, CHR 0x86, CHR 0x93] @ '' '' @ toFixed rt 2 \<bar>c\<bar> @ ''%'') \<and>
    (\<bar>c\<bar> < 10 ^ 21 \<longrightarrow>
       toFixed rt 2 \<bar>c\<bar> = rounded_2_decimals \<bar>c\<bar> \<and>
       (\<exists>whole cents. toFixed rt 2 \<bar>c\<bar> = whole @ ''.'' @ cents \<and> length cents = 2 \<and>
          decimal_value (whole @ cents) = nearest_hundredth \<bar>c\<bar>) \<and>
       \<bar>of_nat (nearest_hundredth \<bar>c\<bar>) / 100 - \<bar>c\<bar>\<bar> \<le> 1 / 200)"
proof -
  from assms(1) have cells:
    "change_class v = badge_class (isPositive rt (change_of crypto))"
    "change_text v = badge_text rt (change_of crypto)"
    by (auto simp: render_row_def Let_def split: if_splits)
  have pos: "isPositive rt (change_of crypto) = (0 \<le> c)"
    by (simp add: assms(2) isPositive_def to_number_def)
  have shown: "abs_toFixed2 rt (change_of crypto) = toFixed rt 2 \<bar>c\<bar>"
    by (simp add: assms(2) abs_toFixed2_def to_number_def)
  have rounded: "toFixed rt 2 \<bar>c\<bar> = rounded_2_decimals \<bar>c\<bar>" if "\<bar>c\<bar> < 10 ^ 21"
    using that by (intro toFixed_2_rounded) simp_all
  have parts: "\<exists>whole cents. rounded_2_decimals \<bar>c\<bar> = whole @ ''.'' @ cents \<and> length cents = 2 \<and>
          decimal_value (whole @ cents) = nearest_hundredth \<bar>c\<bar>"
  proof (intro exI conjI)
    show "rounded_2_decimals \<bar>c\<bar> =
        digits (nearest_hundredth \<bar>c\<bar> div 100) @ ''.'' @
        [digit_char (nearest_hundredth \<bar>c\<bar> mod 100 div 10), digit_char (nearest_hundredth \<bar>c\<bar> mod 10)]"
      by (simp add: rounded_2_decimals_def Let_def)
    show "length [digit_char (nearest_hundredth \<bar>c\<bar> mod 100 div 10),
                  digit_char (nearest_hundredth \<bar>c\<bar> mod 10)] = 2"
      by simp
    show "decimal_value (digits (nearest_hundredth \<bar>c\<bar> div 100) @
        [digit_char (nearest_hundredth \<bar>c\<bar> mod 100 div 10), digit_char (nearest_hundredth \<bar>c\<bar> mod 10)])
        = nearest_hundredth \<bar>c\<bar>"
      by (rule decimal_value_hundredths)
  qed
  have near: "\<bar>of_nat (nearest_hundredth \<bar>c\<bar>) / 100 - \<bar>c\<bar>\<bar> \<le> 1 / 200"
    by (rule nearest_hundredth_close) simp
  have up: "change_class v =
         ''inline-flex items-center px-2.5 py-0.5 rounded-full text-xs font-medium bg-green-500/20 text-green-400'' \<and>
       change_text v = [CHR 0xE2, CHR 0x86, CHR 0x91] @ '' '' @ toFixed rt 2 \<bar>c\<bar> @ ''%''"
    if "0 \<le> c"
    using that by (simp add: cells pos shown badge_text_def badge_class_def up_arrow_def)
  have down: "change_class v =
         ''inline-flex items-center px-2.5 py-0.5 rounded-full text-xs font-medium bg-red-500/20 text-red-400'' \<and>
       change_text v = [CHR 0xE2, CHR 0x86, CHR 0x93] @ '' '' @ toFixed rt 2 \<bar>c\<bar> @ ''%''"
    if "c < 0"
    using that by (simp add: cells pos shown badge_text_def badge_class_def down_arrow_def)
  have bound: "toFixed rt 2 \<bar>c\<bar> = rounded_2_decimals \<bar>c\<bar> \<and>
       (\<exists>whole cents. toFixed rt 2 \<bar>c\<bar> = whole @ ''.'' @ cents \<and> length cents = 2 \<and>
          decimal_value (whole @ cents) = nearest_hundredth \<bar>c\<bar>) \<and>
       \<bar>of_nat (nearest_hundredth \<bar>c\<bar>) / 100 - \<bar>c\<bar>\<bar> \<le> 1 / 200" if "\<bar>c\<bar> < 10 ^ 21"
    using parts near unfolding rounded [OF that] by blast
  from pos up down bound show ?thesis by blast
qed

text \<open>A change of \<open>-3.456\<close> from the feed, and one of \<open>1.25\<close> from the table.\<close>

theorem change_badge_witness:
  "\<exists>v w. render_row sample_ecma 0 feed_record = Inr v \<and>
     change_class v =
       ''inline-flex items-center px-2.5 py-0.5 rounded-full text-xs font-medium bg-red-500/20 text-red-400'' \<and>
     change_text v = [CHR 0xE2, CHR 0x86, CHR 0x93] @ '' 3.46%'' \<and>
     render_row sample_ecma 1 table_row = Inr w \<and>
     change_class w =
       ''inline-flex items-center px-2.5 py-0.5 rounded-full text-xs font-medium bg-green-500/20 text-green-400'' \<and>
     change_text w = [CHR 0xE2, CHR 0x86, CHR 0x91] @ '' 1.25%''"
proof -
  obtain v where v: "render_row sample_ecma 0 feed_record = Inr v"
    using render_row_Inr [of feed_record sample_ecma 0] by (auto simp: feed_record_def)
  obtain w where w: "render_row sample_ecma 1 table_row = Inr w"
    using render_row_Inr [of table_row sample_ecma 1] by (auto simp: table_row_def)
  have r1: "rounded_2_decimals (3456 / 1000) = ''3.46''" by code_simp
  have r2: "rounded_2_decimals (5 / 4) = ''1.25''" by code_simp
  have "change_class v =
       ''inline-flex items-center px-2.5 py-0.5 rounded-full text-xs font-medium bg-red-500/20 text-red-400'' \<and>
     change_text v = [CHR 0xE2, CHR 0x86, CHR 0x93] @ '' 3.46%''"
    using change_badge [OF v feed_record_change] r1 by simp
  moreover have "change_class w =
       ''inline-flex items-center px-2.5 py-0.5 rounded-full text-xs font-medium bg-green-500/20 text-green-400'' \<and>
     change_text w = [CHR 0xE2, CHR 0x86, CHR 0x91] @ '' 1.25%''"
    using change_badge [OF w table_row_change] r2 by simp
  ultimately show ?thesis using v w by blast
qed

subsection \<open>The polled feed\<close>

text \<open>
  C10, as the program has it. \<open>fetcher\<close> gives the same result whatever the status of
  the response. A body that parses as JSON is a success and becomes \<open>liveData\<close>; it
  supersedes the table's records in the resolved display list when it is truthy
  (every array and every object, such as the error object of a rate limit), while
  under a falsy body (\<^verbatim>\<open>null\<close>, \<^verbatim>\<open>false\<close>, \<open>0\<close>, the empty string) the display list is
  the table's records. A rejected fetch and a body that does not parse leave
  \<open>liveData\<close> as it was, and nothing else does.
\<close>

theorem poll_ignores_status:
  "fetcher (Response (res\<lparr>status := n\<rparr>)) = fetcher (Response res) \<and>
   (parsed res = Some v \<longrightarrow>
      fetcher (Response res) = Inr v \<and>
      liveData (poll_settle (Response res) s) = Some v \<and>
      displayData (poll_settle (Response res) s) = (if truthy v then v else JArr (cryptos s))) \<and>
   (parsed res = None \<longrightarrow> liveData (poll_settle (Response res) s) = liveData s) \<and>
   liveData (poll_settle NetworkFailure s) = liveData s \<and>
   (liveData (poll_settle r s) \<noteq> liveData s \<longrightarrow> (\<exists>res v. r = Response res \<and> parsed res = Some v))"
  by (auto simp: fetcher_def poll_settle_def useSWR_settle_def displayData_def
      split: fetch_result.splits option.splits)

text \<open>A rate-limit answer with an error object, and an answer whose body is not JSON.\<close>

theorem poll_ignores_status_witness:
  "liveData (poll_settle (Response \<lparr>status = 429,
       parsed = Some (JObj [(''status'', JObj [(''error_code'', JNum 429)])])\<rparr>)
       (initial\<lparr>cryptos := [table_row]\<rparr>))
     = Some (JObj [(''status'', JObj [(''error_code'', JNum 429)])]) \<and>
   displayData (poll_settle (Response \<lparr>status = 429,
       parsed = Some (JObj [(''status'', JObj [(''error_code'', JNum 429)])])\<rparr>)
       (initial\<lparr>cryptos := [table_row]\<rparr>))
     = JObj [(''status'', JObj [(''error_code'', JNum 429)])] \<and>
   liveData (poll_settle (Response \<lparr>status = 200, parsed = None\<rparr>)
       (initial\<lparr>liveData := Some (JArr [feed_record])\<rparr>)) = Some (JArr [feed_record])"
  using poll_ignores_status [where res = "\<lparr>status = 429,
       parsed = Some (JObj [(''status'', JObj [(''error_code'', JNum 429)])])\<rparr>"
       and v = "JObj [(''status'', JObj [(''error_code'', JNum 429)])]"
       and s = "initial\<lparr>cryptos := [table_row]\<rparr>"]
    poll_ignores_status [where res = "\<lparr>status = 200, parsed = None\<rparr>"
       and s = "initial\<lparr>liveData := Some (JArr [feed_record])\<rparr>"]
  by (simp add: initial_def)

text \<open>
  C10, as the claim words it, fails: the feed answers with the body \<^verbatim>\<open>null\<close>, which
  parses as JSON and becomes \<open>liveData\<close>, and the display list is still the table's
  records.
\<close>

theorem falsy_body_does_not_supersede:
  "liveData (run [Mount, TableAnswer (Resolved (Some [table_row]) (Some JNull)),
                  FeedAnswer (Response \<lparr>status = 200, parsed = Some JNull\<rparr>)] initial)
     = Some JNull \<and>
   displayData (run [Mount, TableAnswer (Resolved (Some [table_row]) (Some JNull)),
                  FeedAnswer (Response \<lparr>status = 200, parsed = Some JNull\<rparr>)] initial)
     = JArr [table_row]"
  by (simp add: run_def initial_def on_mount_def fetchCryptos_def fetchCryptos_resume_def
      fetchCryptos_settle_def try_block_def finally_block_def truthy_js_def poll_settle_def
      fetcher_def useSWR_settle_def displayData_def)

end
